theory Spec2Isabelle
  imports Main "HOL-Library.AList"
begin

section \<open>The matchmaking server (matchmaking-server.js)\<close>

text \<open>
  The server keeps four JavaScript \<open>Map\<close>s and reacts to socket messages and to two
  timers.  A \<open>Map\<close> iterates in insertion order, and three handlers stop at the first
  entry they find, so each \<open>Map\<close> is an association list: \<open>map_of\<close> is \<open>get\<close>,
  \<open>AList.update\<close> is \<open>set\<close> (in place for a key that is present, at the end for a new
  one) and \<open>AList.delete\<close> is \<open>delete\<close>.  The set of live sockets is a list of socket
  identifiers.  Every handler takes the state and returns the new state together with
  the messages it sent and the timers it started, in program order.  Console output is
  left out.  Message payloads are taken to be well typed: addresses, identifiers and
  markers are strings, rows, columns and stakes are integers (so that \<open>parseInt(stake)\<close>
  is the stake itself), and the values of \<open>uuidv4()\<close> and \<open>Date.now()\<close> are
  arguments of the handler that reads them.
\<close>

subsection \<open>Data\<close>

type_synonym address = string
type_synonym socketId = string
type_synonym matchId = string

datatype status = CREATED | STAKED | COMPLETED

datatype reason = NORMAL | FORFEIT | DISCONNECT

datatype js_error = TypeError

record playerData =
  address :: address
  stake :: int
  socketId :: socketId

record preStake =
  ps_stake :: int
  timestamp :: int
  ps_socketId :: socketId
  confirmed :: bool
  ps_blockchainMatchId :: "string option"

record matchData =
  matchId :: matchId
  player1 :: address
  player2 :: address
  m_stake :: int
  status :: status
  board :: "string list"
  currentPlayer :: string
  gameActive :: bool
  player1Staked :: bool
  player2Staked :: bool
  blockchainMatchId :: "string option"
  moves :: "(int \<times> int \<times> string) list"
  player1SocketId :: socketId
  player2SocketId :: socketId
  result :: "string option"
  endReason :: "reason option"

record state =
  waitingPlayers :: "(int \<times> playerData list) list"
  activeMatches :: "(matchId \<times> matchData) list"
  playerSessions :: "socketId list"
  preStakedPlayers :: "(address \<times> preStake) list"

text \<open>
  The texts of the \<open>matchmakingStatus\<close> messages, in the order of the source:
  "You already have a pending stake. Please wait or cancel.", "Opponent found! Creating
  match...", "Searching for opponent... Your stake is held in escrow.", "Failed to start
  matchmaking: " followed by the error's message, and "Matchmaking cancelled. Your stake
  will be refunded.".
\<close>

datatype message =
    AlreadyPending
  | OpponentFound
  | Searching
  | FailedToStart js_error
  | Cancelled

datatype emitted =
    MatchFound matchData
  | MatchmakingStatus string message
  | MatchCreatedOnChain matchId "string option" string
  | GameStart matchId string bool
  | MoveMade int int string string
  | GameEnd string "address option" reason "string list"

text \<open>
  What a handler does to the outside: \<open>Emit sid e\<close> is \<open>emit\<close> on the socket \<open>sid\<close>,
  \<open>Broadcast sid e\<close> is \<open>socket.broadcast.emit\<close> from \<open>sid\<close>, and \<open>SetTimeout ms mid\<close>
  is the timer of \<open>endGame\<close> that deletes the match \<open>mid\<close> after \<open>ms\<close> milliseconds.
  The server makes no other call: it holds no ledger or HTTP client.
\<close>

datatype effect =
    Emit socketId emitted
  | Broadcast socketId emitted
  | SetTimeout nat matchId

datatype event =
    Connection socketId
  | FindMatch socketId address int int matchId
  | PreStakeConfirmed socketId address "string option"
  | MatchCreated socketId matchId string "string option"
  | NotifyPlayer2 socketId matchId "string option" string
  | PlayerStaked socketId matchId string
  | CancelMatchmaking socketId address
  | MakeMove socketId matchId int int string
  | ForfeitMatch socketId matchId address
  | Disconnect socketId
  | Sweep int
  | Evict matchId

subsection \<open>Constants and small helpers\<close>

definition PRE_STAKE_TIMEOUT :: int where
  "PRE_STAKE_TIMEOUT = 5 * 60 * 1000"

definition initial :: state where
  "initial = \<lparr>waitingPlayers = [], activeMatches = [], playerSessions = [],
     preStakedPlayers = []\<rparr>"

definition has :: "('k \<times> 'v) list \<Rightarrow> 'k \<Rightarrow> bool" where
  "has m k = (map_of m k \<noteq> None)"

text \<open>\<open>String.prototype.toLowerCase\<close> on ASCII text (addresses are hexadecimal).\<close>

definition lowerChar :: "char \<Rightarrow> char" where
  "lowerChar c =
     (case map_of (zip ''ABCDEFGHIJKLMNOPQRSTUVWXYZ'' ''abcdefghijklmnopqrstuvwxyz'') c of
        Some d \<Rightarrow> d
      | None \<Rightarrow> c)"

definition toLowerCase :: "string \<Rightarrow> string" where
  "toLowerCase s = map lowerChar s"

text \<open>\<open>board[index]\<close>: \<open>undefined\<close> (here \<open>None\<close>) outside the array.\<close>

definition cellAt :: "string list \<Rightarrow> int \<Rightarrow> string option" where
  "cellAt b i = (if 0 \<le> i \<and> i < int (length b) then Some (b ! nat i) else None)"

text \<open>\<open>players.findIndex(P)\<close> followed by \<open>players.splice(index, 1)\<close>.\<close>

fun spliceFirst :: "('a \<Rightarrow> bool) \<Rightarrow> 'a list \<Rightarrow> 'a list" where
  "spliceFirst P [] = []"
| "spliceFirst P (x # xs) = (if P x then xs else x # spliceFirst P xs)"

text \<open>
  The loop over \<open>waitingPlayers.entries()\<close> shared by cancel, disconnect and the sweep:
  in the first bucket that holds a player satisfying \<open>P\<close>, remove the first such player,
  delete the bucket if it is now empty, and stop.
\<close>

fun removeWaiting :: "(playerData \<Rightarrow> bool) \<Rightarrow> (int \<times> playerData list) list
    \<Rightarrow> (int \<times> playerData list) list" where
  "removeWaiting P [] = []"
| "removeWaiting P ((k, players) # rest) =
     (if list_ex P players
      then (let players' = spliceFirst P players
            in if players' = [] then rest else (k, players') # rest)
      else (k, players) # removeWaiting P rest)"

subsection \<open>Game logic functions\<close>

definition winConditions :: "int list list" where
  "winConditions =
     [[0, 1, 2], [3, 4, 5], [6, 7, 8],
      [0, 3, 6], [1, 4, 7], [2, 5, 8],
      [0, 4, 8], [2, 4, 6]]"

definition checkWin :: "string list \<Rightarrow> string \<Rightarrow> bool" where
  "checkWin b symbol =
     list_ex (\<lambda>condition. list_all (\<lambda>index. cellAt b index = Some symbol) condition)
       winConditions"

definition checkDraw :: "string list \<Rightarrow> bool" where
  "checkDraw b = list_all (\<lambda>cell. cell \<noteq> '''') b"

definition notifyPlayers :: "matchId \<Rightarrow> emitted \<Rightarrow> state \<Rightarrow> effect list" where
  "notifyPlayers mid e s =
     (case map_of (activeMatches s) mid of
        None \<Rightarrow> []
      | Some m \<Rightarrow>
          (if player1SocketId m \<in> set (playerSessions s)
           then [Emit (player1SocketId m) e] else []) @
          (if player2SocketId m \<in> set (playerSessions s)
           then [Emit (player2SocketId m) e] else []))"

definition endGame :: "matchId \<Rightarrow> string \<Rightarrow> reason \<Rightarrow> state \<Rightarrow> state \<times> effect list" where
  "endGame mid res rsn s =
     (case map_of (activeMatches s) mid of
        None \<Rightarrow> (s, [])
      | Some m \<Rightarrow>
          (let m' = m\<lparr>status := COMPLETED, gameActive := False, result := Some res,
                      endReason := Some rsn\<rparr>;
               s' = s\<lparr>activeMatches := AList.update mid m' (activeMatches s)\<rparr>;
               winnerAddress =
                 (if res = ''X'' then Some (player1 m')
                  else if res = ''O'' then Some (player2 m')
                  else None)
           in (s', notifyPlayers mid (GameEnd res winnerAddress rsn (board m')) s' @
                   [SetTimeout 60000 mid])))"

subsection \<open>Matchmaking logic\<close>

text \<open>
  \<open>findMatch(playerData)\<close>, with the value of \<open>uuidv4()\<close> as \<open>uuid\<close>.  The result is
  \<open>Inr (Some match)\<close>, \<open>Inr None\<close> for the source's \<open>null\<close>, or \<open>Inl TypeError\<close> when the
  bucket is present but empty: \<open>shift()\<close> then gives \<open>undefined\<close>, the empty bucket is
  deleted, and reading \<open>waitingPlayer.address\<close> throws.
\<close>

definition findMatch :: "matchId \<Rightarrow> playerData \<Rightarrow> state
    \<Rightarrow> (js_error + matchData option) \<times> state \<times> effect list" where
  "findMatch uuid pd s =
     (case map_of (waitingPlayers s) (stake pd) of
        Some bucket \<Rightarrow>
          (let rest = tl bucket;
               s1 = s\<lparr>waitingPlayers :=
                       (if rest = [] then AList.delete (stake pd) (waitingPlayers s)
                        else AList.update (stake pd) rest (waitingPlayers s))\<rparr>
           in case bucket of
                [] \<Rightarrow> (Inl TypeError, s1, [])
              | waitingPlayer # _ \<Rightarrow>
                  (let m = \<lparr>matchId = uuid,
                            player1 = address waitingPlayer,
                            player2 = address pd,
                            m_stake = stake pd,
                            status = CREATED,
                            board = replicate 9 '''',
                            currentPlayer = ''X'',
                            gameActive = False,
                            player1Staked = False,
                            player2Staked = False,
                            blockchainMatchId = None,
                            moves = [],
                            player1SocketId = socketId waitingPlayer,
                            player2SocketId = socketId pd,
                            result = None,
                            endReason = None\<rparr>;
                       s2 = s1\<lparr>activeMatches := AList.update uuid m (activeMatches s1)\<rparr>
                   in (Inr (Some m), s2,
                       (if socketId waitingPlayer \<in> set (playerSessions s2)
                        then [Emit (socketId waitingPlayer) (MatchFound m)] else []) @
                       (if socketId pd \<in> set (playerSessions s2)
                        then [Emit (socketId pd) (MatchFound m)] else []))))
      | None \<Rightarrow>
          (Inr None,
           s\<lparr>waitingPlayers := AList.update (stake pd) [pd] (waitingPlayers s)\<rparr>, []))"

subsection \<open>Socket handlers\<close>

definition onConnection :: "socketId \<Rightarrow> state \<Rightarrow> state \<times> effect list" where
  "onConnection sid s = (s\<lparr>playerSessions := List.insert sid (playerSessions s)\<rparr>, [])"

definition onFindMatch :: "socketId \<Rightarrow> address \<Rightarrow> int \<Rightarrow> int \<Rightarrow> matchId \<Rightarrow> state
    \<Rightarrow> state \<times> effect list" where
  "onFindMatch sid addr stk now uuid s =
     (if has (preStakedPlayers s) addr
      then (s, [Emit sid (MatchmakingStatus ''error'' AlreadyPending)])
      else
        (let s1 = s\<lparr>preStakedPlayers :=
                      AList.update addr
                        \<lparr>ps_stake = stk, timestamp = now, ps_socketId = sid,
                         confirmed = False, ps_blockchainMatchId = None\<rparr>
                        (preStakedPlayers s)\<rparr>
         in case findMatch uuid \<lparr>address = addr, stake = stk, socketId = sid\<rparr> s1 of
              (Inr (Some m), s2, out) \<Rightarrow>
                (s2, out @ [Emit sid (MatchmakingStatus ''matched'' OpponentFound)])
            | (Inr None, s2, out) \<Rightarrow>
                (s2, out @ [Emit sid (MatchmakingStatus ''waiting'' Searching)])
            | (Inl e, s2, out) \<Rightarrow>
                (s2, out @ [Emit sid (MatchmakingStatus ''error'' (FailedToStart e))])))"

definition onPreStakeConfirmed :: "address \<Rightarrow> string option \<Rightarrow> state \<Rightarrow> state \<times> effect list" where
  "onPreStakeConfirmed addr bcid s =
     (case map_of (preStakedPlayers s) addr of
        None \<Rightarrow> (s, [])
      | Some p \<Rightarrow>
          (s\<lparr>preStakedPlayers :=
               AList.update addr (p\<lparr>confirmed := True, ps_blockchainMatchId := bcid\<rparr>)
                 (preStakedPlayers s)\<rparr>, []))"

definition onMatchCreated :: "matchId \<Rightarrow> string \<Rightarrow> string option \<Rightarrow> state \<Rightarrow> state \<times> effect list" where
  "onMatchCreated mid playerStaked bcid s =
     (case map_of (activeMatches s) mid of
        None \<Rightarrow> (s, [])
      | Some m \<Rightarrow>
          (let m1 = m\<lparr>blockchainMatchId := bcid\<rparr>;
               m2 = (if toLowerCase playerStaked = toLowerCase (player1 m1)
                     then m1\<lparr>player1Staked := True\<rparr> else m1)
           in (s\<lparr>activeMatches := AList.update mid m2 (activeMatches s)\<rparr>, [])))"

definition onNotifyPlayer2 :: "socketId \<Rightarrow> matchId \<Rightarrow> string option \<Rightarrow> string \<Rightarrow> state
    \<Rightarrow> state \<times> effect list" where
  "onNotifyPlayer2 sid mid bcid createdBy s =
     (s, [Broadcast sid (MatchCreatedOnChain mid bcid createdBy)])"

definition onPlayerStaked :: "matchId \<Rightarrow> string \<Rightarrow> state \<Rightarrow> state \<times> effect list" where
  "onPlayerStaked mid player s =
     (case map_of (activeMatches s) mid of
        None \<Rightarrow> (s, [])
      | Some m \<Rightarrow>
          (let m1 = (if toLowerCase player = toLowerCase (player2 m)
                     then m\<lparr>player2Staked := True\<rparr> else m)
           in if player1Staked m1 \<and> player2Staked m1
              then
                (let m2 = m1\<lparr>status := STAKED, gameActive := True\<rparr>
                 in (s\<lparr>activeMatches := AList.update mid m2 (activeMatches s)\<rparr>,
                     (if player1SocketId m2 \<in> set (playerSessions s)
                      then [Emit (player1SocketId m2) (GameStart mid ''X'' True)] else []) @
                     (if player2SocketId m2 \<in> set (playerSessions s)
                      then [Emit (player2SocketId m2) (GameStart mid ''O'' False)] else [])))
              else (s\<lparr>activeMatches := AList.update mid m1 (activeMatches s)\<rparr>, [])))"

definition onCancelMatchmaking :: "socketId \<Rightarrow> address \<Rightarrow> state \<Rightarrow> state \<times> effect list" where
  "onCancelMatchmaking sid addr s =
     (if has (preStakedPlayers s) addr
      then (s\<lparr>preStakedPlayers := AList.delete addr (preStakedPlayers s),
              waitingPlayers := removeWaiting (\<lambda>p. address p = addr) (waitingPlayers s)\<rparr>,
            [Emit sid (MatchmakingStatus ''cancelled'' Cancelled)])
      else (s, []))"

definition onMakeMove :: "matchId \<Rightarrow> int \<Rightarrow> int \<Rightarrow> string \<Rightarrow> state \<Rightarrow> state \<times> effect list" where
  "onMakeMove mid row col symbol s =
     (case map_of (activeMatches s) mid of
        None \<Rightarrow> (s, [])
      | Some m \<Rightarrow>
          (if gameActive m
           then
             (let index = row * 3 + col
              in if cellAt (board m) index = Some ''''
                 then
                   (let m1 = m\<lparr>board := (board m)[nat index := symbol],
                               moves := moves m @ [(row, col, symbol)]\<rparr>;
                        s1 = s\<lparr>activeMatches := AList.update mid m1 (activeMatches s)\<rparr>
                    in if checkWin (board m1) symbol then endGame mid symbol NORMAL s1
                       else if checkDraw (board m1) then endGame mid ''DRAW'' NORMAL s1
                       else
                         (let m2 = m1\<lparr>currentPlayer :=
                                       (if currentPlayer m1 = ''X'' then ''O'' else ''X'')\<rparr>;
                              s2 = s\<lparr>activeMatches := AList.update mid m2 (activeMatches s)\<rparr>
                          in (s2, notifyPlayers mid
                                    (MoveMade row col symbol (currentPlayer m2)) s2)))
                 else (s, []))
           else (s, [])))"

definition onForfeitMatch :: "matchId \<Rightarrow> address \<Rightarrow> state \<Rightarrow> state \<times> effect list" where
  "onForfeitMatch mid addr s =
     (case map_of (activeMatches s) mid of
        None \<Rightarrow> (s, [])
      | Some m \<Rightarrow> endGame mid (if addr = player1 m then player2 m else player1 m) FORFEIT s)"

text \<open>
  The three loops of the disconnect handler, each stopping at its first hit: the waiting
  queue, the match table and the pre-stakes; then the socket leaves \<open>playerSessions\<close>.
\<close>

definition onDisconnect :: "socketId \<Rightarrow> state \<Rightarrow> state \<times> effect list" where
  "onDisconnect sid s =
     (let s1 = s\<lparr>waitingPlayers := removeWaiting (\<lambda>p. socketId p = sid) (waitingPlayers s)\<rparr>;
          (s2, out) =
            (case find (\<lambda>(mid, m). player1SocketId m = sid \<or> player2SocketId m = sid)
                    (activeMatches s1) of
               None \<Rightarrow> (s1, [])
             | Some (mid, m) \<Rightarrow>
                 endGame mid (if player1SocketId m = sid then player2 m else player1 m)
                   DISCONNECT s1);
          s3 = (case find (\<lambda>(a, p). ps_socketId p = sid) (preStakedPlayers s2) of
                  None \<Rightarrow> s2
                | Some (a, p) \<Rightarrow>
                    s2\<lparr>preStakedPlayers := AList.delete a (preStakedPlayers s2)\<rparr>)
      in (s3\<lparr>playerSessions := removeAll sid (playerSessions s3)\<rparr>, out))"

subsection \<open>Timers\<close>

text \<open>
  The body of the \<open>setInterval\<close> callback, run over the entries of \<open>preStakedPlayers\<close> in
  order (deleting the entry under the iterator does not disturb a \<open>Map\<close> iteration).
\<close>

fun sweepLoop :: "int \<Rightarrow> (address \<times> preStake) list \<Rightarrow> state \<Rightarrow> state" where
  "sweepLoop now [] s = s"
| "sweepLoop now ((a, p) # rest) s =
     sweepLoop now rest
       (if now - timestamp p > PRE_STAKE_TIMEOUT
        then s\<lparr>preStakedPlayers := AList.delete a (preStakedPlayers s),
               waitingPlayers := removeWaiting (\<lambda>q. address q = a) (waitingPlayers s)\<rparr>
        else s)"

definition onSweep :: "int \<Rightarrow> state \<Rightarrow> state \<times> effect list" where
  "onSweep now s = (sweepLoop now (preStakedPlayers s) s, [])"

definition onEvict :: "matchId \<Rightarrow> state \<Rightarrow> state \<times> effect list" where
  "onEvict mid s = (s\<lparr>activeMatches := AList.delete mid (activeMatches s)\<rparr>, [])"

subsection \<open>The server as a transition system\<close>

fun handle :: "event \<Rightarrow> state \<Rightarrow> state \<times> effect list" where
  "handle (Connection sid) s = onConnection sid s"
| "handle (FindMatch sid addr stk now uuid) s = onFindMatch sid addr stk now uuid s"
| "handle (PreStakeConfirmed sid addr bcid) s = onPreStakeConfirmed addr bcid s"
| "handle (MatchCreated sid mid playerStaked bcid) s = onMatchCreated mid playerStaked bcid s"
| "handle (NotifyPlayer2 sid mid bcid createdBy) s = onNotifyPlayer2 sid mid bcid createdBy s"
| "handle (PlayerStaked sid mid player) s = onPlayerStaked mid player s"
| "handle (CancelMatchmaking sid addr) s = onCancelMatchmaking sid addr s"
| "handle (MakeMove sid mid row col symbol) s = onMakeMove mid row col symbol s"
| "handle (ForfeitMatch sid mid addr) s = onForfeitMatch mid addr s"
| "handle (Disconnect sid) s = onDisconnect sid s"
| "handle (Sweep now) s = onSweep now s"
| "handle (Evict mid) s = onEvict mid s"

fun run :: "event list \<Rightarrow> state \<Rightarrow> state" where
  "run [] s = s"
| "run (e # es) s = run es (fst (handle e s))"

section \<open>Notions used to state the properties\<close>

text \<open>
  A state stands for four \<open>Map\<close>s only if no key occurs twice in an association list.
\<close>

definition wf :: "state \<Rightarrow> bool" where
  "wf s = (distinct (map fst (waitingPlayers s)) \<and> distinct (map fst (activeMatches s)) \<and>
           distinct (map fst (preStakedPlayers s)))"




text \<open>
  Example traces and the states they lead to.  Two players connect and join with stake
  100 (\<open>joined\<close>); player 1 reports the match created and staked, then player 2 reports
  its stake (\<open>started\<close>); four moves are played (\<open>fourMoves\<close>).
\<close>

definition joined :: "event list" where
  "joined =
     [Connection ''s1'', Connection ''s2'',
      FindMatch ''s1'' ''0xA'' 100 1000 ''u0'',
      FindMatch ''s2'' ''0xB'' 100 2000 ''m1'']"

definition started :: "event list" where
  "started = joined @
     [MatchCreated ''s1'' ''m1'' ''0xA'' (Some ''bc1''),
      PlayerStaked ''s2'' ''m1'' ''0xB'']"


definition createdMatch :: matchData where
  "createdMatch =
     \<lparr>matchId = ''m1'', player1 = ''0xA'', player2 = ''0xB'', m_stake = 100,
      status = CREATED, board = ['''', '''', '''', '''', '''', '''', '''', '''', ''''],
      currentPlayer = ''X'', gameActive = False, player1Staked = False,
      player2Staked = False, blockchainMatchId = None, moves = [],
      player1SocketId = ''s1'', player2SocketId = ''s2'', result = None,
      endReason = None\<rparr>"

definition joinedState :: state where
  "joinedState =
     \<lparr>waitingPlayers = [],
      activeMatches = [(''m1'', createdMatch)],
      playerSessions = [''s2'', ''s1''],
      preStakedPlayers =
        [(''0xA'', \<lparr>ps_stake = 100, timestamp = 1000, ps_socketId = ''s1'',
                    confirmed = False, ps_blockchainMatchId = None\<rparr>),
         (''0xB'', \<lparr>ps_stake = 100, timestamp = 2000, ps_socketId = ''s2'',
                    confirmed = False, ps_blockchainMatchId = None\<rparr>)]\<rparr>"

definition startedMatch :: matchData where
  "startedMatch =
     createdMatch\<lparr>status := STAKED, gameActive := True, player1Staked := True,
       player2Staked := True, blockchainMatchId := Some ''bc1''\<rparr>"

definition startedState :: state where
  "startedState = joinedState\<lparr>activeMatches := [(''m1'', startedMatch)]\<rparr>"

definition fourMovesMatch :: matchData where
  "fourMovesMatch =
     startedMatch\<lparr>board := [''X'', ''X'', '''', '''', ''O'', '''', '''', '''', ''O''],
       moves := [(0, 0, ''X''), (1, 1, ''O''), (0, 1, ''X''), (2, 2, ''O'')]\<rparr>"

definition fourMovesState :: state where
  "fourMovesState = joinedState\<lparr>activeMatches := [(''m1'', fourMovesMatch)]\<rparr>"

text \<open>The socket \<open>s1\<close> joins twice, under two addresses, and is paired both times.\<close>

definition twoMatches :: "event list" where
  "twoMatches =
     [Connection ''s1'', Connection ''s2'', Connection ''s3'',
      FindMatch ''s1'' ''0xA'' 100 1000 ''u0'',
      FindMatch ''s2'' ''0xB'' 100 2000 ''m1'',
      FindMatch ''s1'' ''0xC'' 100 3000 ''u1'',
      FindMatch ''s3'' ''0xD'' 100 4000 ''m2'']"

text \<open>One player has joined and waits.\<close>

definition waiting :: "event list" where
  "waiting = [Connection ''s1'', FindMatch ''s1'' ''0xA'' 100 1000 ''u0'']"

definition waitingState :: state where
  "waitingState =
     \<lparr>waitingPlayers = [(100, [\<lparr>address = ''0xA'', stake = 100, socketId = ''s1''\<rparr>])],
      activeMatches = [],
      playerSessions = [''s1''],
      preStakedPlayers =
        [(''0xA'', \<lparr>ps_stake = 100, timestamp = 1000, ps_socketId = ''s1'',
                    confirmed = False, ps_blockchainMatchId = None\<rparr>)]\<rparr>"

text \<open>Player 2 reports its stake before player 1 does.\<close>

definition player2First :: "event list" where
  "player2First = joined @ [PlayerStaked ''s2'' ''m1'' ''0xB'']"

definition player2FirstState :: state where
  "player2FirstState =
     joinedState\<lparr>activeMatches := [(''m1'', createdMatch\<lparr>player2Staked := True\<rparr>)]\<rparr>"

section \<open>Properties\<close>

subsection \<open>Game rules\<close>

lemma all_less_3: "(\<forall>i<3. P (i::nat)) = (P 0 \<and> P 1 \<and> P 2)"
  by (auto simp add: numeral_3_eq_3 All_less_Suc numeral_2_eq_2)

lemma ex_less_3: "(\<exists>i<3. P (i::nat)) = (P 0 \<or> P 1 \<or> P 2)"
  by (auto simp add: numeral_3_eq_3 Ex_less_Suc numeral_2_eq_2)

text \<open>
  Claim C8 says that \<open>checkDraw\<close> holds iff the nine cells are occupied and no marker has
  a win.  The function only looks at the cells: on the full board below, whose top row
  is three X, it answers true although X has a line.
\<close>

theorem C8_counterexample:
  "checkDraw [''X'', ''X'', ''X'', ''O'', ''O'', ''X'', ''O'', ''X'', ''O''] \<and>
   checkWin [''X'', ''X'', ''X'', ''O'', ''O'', ''X'', ''O'', ''X'', ''O''] ''X''"
  by (simp add: checkDraw_def checkWin_def winConditions_def cellAt_def)

text \<open>
  Claim C8, amended: on a 9-cell board, \<open>checkWin\<close> holds for a marker iff that marker
  fills one of the three rows, one of the three columns, the main diagonal (cells 0, 4,
  8) or the other diagonal (cells 2, 4, 6); \<open>checkDraw\<close> holds iff all nine cells are
  non-empty, whether or not a marker has a line.
\<close>

theorem C8_checkWin_lines_checkDraw_full:
  "length b = 9 \<Longrightarrow>
     (checkWin b marker \<longleftrightarrow>
        (\<exists>r<3. \<forall>c<3. b ! (3 * r + c) = marker) \<or>
        (\<exists>c<3. \<forall>r<3. b ! (3 * r + c) = marker) \<or>
        (\<forall>i<3. b ! (4 * i) = marker) \<or>
        (\<forall>i<3. b ! (2 * i + 2) = marker)) \<and>
     (checkDraw b \<longleftrightarrow> (\<forall>i<9. b ! i \<noteq> ''''))"
  by (simp add: checkWin_def winConditions_def cellAt_def all_less_3 ex_less_3
        numeral_2_eq_2 [symmetric] checkDraw_def list_all_length)

text \<open>
  The theorem of C8 on the board whose top row is three X and whose other cells are empty.
\<close>

theorem C8_witness:
  "checkWin [''X'', ''X'', ''X'', '''', '''', '''', '''', '''', ''''] ''X'' \<and>
   \<not> checkDraw [''X'', ''X'', ''X'', '''', '''', '''', '''', '''', '''']"
  using C8_checkWin_lines_checkDraw_full
    [of "[''X'', ''X'', ''X'', '''', '''', '''', '''', '''', '''']" "''X''"]
  by (auto simp add: all_less_3 ex_less_3 intro!: exI [of _ "3::nat"])

subsection \<open>The association lists stay well formed\<close>

lemma keys_removeWaiting: "fst ` set (removeWaiting P w) \<subseteq> fst ` set w"
  by (induction P w rule: removeWaiting.induct) (auto simp: Let_def)

lemma distinct_removeWaiting:
  "distinct (map fst w) \<Longrightarrow> distinct (map fst (removeWaiting P w))"
proof (induction P w rule: removeWaiting.induct)
  case (1 P)
  then show ?case by simp
next
  case (2 P k players rest)
  then show ?case
    using keys_removeWaiting [of P rest] by (auto simp: Let_def)
qed

lemma endGame_activeMatches:
  "activeMatches (fst (endGame mid res rsn s)) =
     (case map_of (activeMatches s) mid of
        None \<Rightarrow> activeMatches s
      | Some m \<Rightarrow> AList.update mid
          (m\<lparr>status := COMPLETED, gameActive := False, result := Some res,
             endReason := Some rsn\<rparr>) (activeMatches s))"
  by (simp add: endGame_def Let_def split: option.splits)

lemma endGame_others [simp]:
  "waitingPlayers (fst (endGame mid res rsn s)) = waitingPlayers s"
  "preStakedPlayers (fst (endGame mid res rsn s)) = preStakedPlayers s"
  "playerSessions (fst (endGame mid res rsn s)) = playerSessions s"
  by (simp_all add: endGame_def Let_def split: option.splits)

lemma wf_endGame: "wf s \<Longrightarrow> wf (fst (endGame mid res rsn s))"
  by (simp add: wf_def endGame_activeMatches AList.distinct_update split: option.splits)

lemma wf_sweepLoop: "wf s \<Longrightarrow> wf (sweepLoop now ps s)"
proof (induction now ps s rule: sweepLoop.induct)
  case (1 now s)
  then show ?case by simp
next
  case (2 now a p rest s)
  then show ?case
    by (simp add: wf_def AList.distinct_delete distinct_removeWaiting)
qed

lemma wf_findMatch: "wf s \<Longrightarrow> wf (fst (snd (findMatch uuid pd s)))"
  by (simp add: wf_def findMatch_def Let_def AList.distinct_delete AList.distinct_update
      split: option.splits list.splits)

lemma wf_onFindMatch: "wf s \<Longrightarrow> wf (fst (onFindMatch sid addr stk now uuid s))"
proof -
  assume w: "wf s"
  let ?s1 = "s\<lparr>preStakedPlayers :=
                AList.update addr
                  \<lparr>ps_stake = stk, timestamp = now, ps_socketId = sid,
                   confirmed = False, ps_blockchainMatchId = None\<rparr>
                  (preStakedPlayers s)\<rparr>"
  have "wf ?s1" using w by (simp add: wf_def AList.distinct_update)
  then have "wf (fst (snd (findMatch uuid \<lparr>address = addr, stake = stk, socketId = sid\<rparr> ?s1)))"
    by (rule wf_findMatch)
  then show ?thesis using w
    by (auto simp: onFindMatch_def Let_def split: prod.splits sum.splits option.splits)
qed

lemma wf_onMakeMove: "wf s \<Longrightarrow> wf (fst (onMakeMove mid row col symbol s))"
  by (auto simp: onMakeMove_def Let_def wf_def endGame_activeMatches AList.distinct_update
      split: option.splits)

lemma onDisconnect_fst:
  "fst (onDisconnect sid s) =
     (let s1 = s\<lparr>waitingPlayers := removeWaiting (\<lambda>p. socketId p = sid) (waitingPlayers s)\<rparr>;
          s2 = (case find (\<lambda>(mid, m). player1SocketId m = sid \<or> player2SocketId m = sid)
                       (activeMatches s1) of
                  None \<Rightarrow> s1
                | Some (mid, m) \<Rightarrow>
                    fst (endGame mid (if player1SocketId m = sid then player2 m else player1 m)
                      DISCONNECT s1));
          s3 = (case find (\<lambda>(a, p). ps_socketId p = sid) (preStakedPlayers s2) of
                  None \<Rightarrow> s2
                | Some (a, p) \<Rightarrow>
                    s2\<lparr>preStakedPlayers := AList.delete a (preStakedPlayers s2)\<rparr>)
      in s3\<lparr>playerSessions := removeAll sid (playerSessions s3)\<rparr>)"
  by (simp add: onDisconnect_def Let_def case_prod_beta split: option.splits)

lemma wf_onDisconnect:
  assumes "wf s"
  shows "wf (fst (onDisconnect sid s))"
proof -
  define s1 where "s1 = s\<lparr>waitingPlayers := removeWaiting (\<lambda>p. socketId p = sid) (waitingPlayers s)\<rparr>"
  define s2 where "s2 = (case find (\<lambda>(mid, m). player1SocketId m = sid \<or> player2SocketId m = sid)
                       (activeMatches s1) of
                  None \<Rightarrow> s1
                | Some (mid, m) \<Rightarrow>
                    fst (endGame mid (if player1SocketId m = sid then player2 m else player1 m)
                      DISCONNECT s1))"
  define s3 where "s3 = (case find (\<lambda>(a, p). ps_socketId p = sid) (preStakedPlayers s2) of
                  None \<Rightarrow> s2
                | Some (a, p) \<Rightarrow>
                    s2\<lparr>preStakedPlayers := AList.delete a (preStakedPlayers s2)\<rparr>)"
  have 1: "wf s1" using assms by (simp add: s1_def wf_def distinct_removeWaiting)
  have 2: "wf s2" using 1 wf_endGame by (auto simp: s2_def split: option.splits)
  have 3: "wf s3" using 2 by (auto simp: s3_def wf_def AList.distinct_delete split: option.splits)
  have "fst (onDisconnect sid s) = s3\<lparr>playerSessions := removeAll sid (playerSessions s3)\<rparr>"
    by (simp only: onDisconnect_fst s1_def s2_def s3_def Let_def)
  then show ?thesis using 3 by (simp add: wf_def)
qed

lemma wf_handle:
  assumes "wf s"
  shows "wf (fst (handle e s))"
proof (cases e)
  case (FindMatch sid addr stk now uuid)
  then show ?thesis using assms wf_onFindMatch by simp
next
  case (MakeMove sid mid row col symbol)
  then show ?thesis using assms wf_onMakeMove by simp
next
  case (Disconnect sid)
  then show ?thesis using assms wf_onDisconnect by simp
next
  case (Sweep now)
  then show ?thesis using assms wf_sweepLoop by (simp add: onSweep_def)
next
  case (ForfeitMatch sid mid addr)
  then show ?thesis using assms wf_endGame by (simp add: onForfeitMatch_def split: option.splits)
qed (use assms in \<open>auto simp: wf_def onConnection_def onPreStakeConfirmed_def onMatchCreated_def
      onNotifyPlayer2_def onPlayerStaked_def onCancelMatchmaking_def onEvict_def Let_def
      AList.distinct_update AList.distinct_delete distinct_removeWaiting
      split: option.splits\<close>)

lemma wf_initial: "wf initial"
  by (simp add: wf_def initial_def)

lemma wf_run: "wf s \<Longrightarrow> wf (run evs s)"
  by (induction evs arbitrary: s) (simp_all add: wf_handle)

subsection \<open>Finishing a game and making a move\<close>

lemma endGame_eq:
  "map_of (activeMatches s) mid = Some m \<Longrightarrow>
   endGame mid res rsn s =
     (s\<lparr>activeMatches := AList.update mid
          (m\<lparr>status := COMPLETED, gameActive := False, result := Some res,
             endReason := Some rsn\<rparr>) (activeMatches s)\<rparr>,
      (if player1SocketId m \<in> set (playerSessions s)
       then [Emit (player1SocketId m)
               (GameEnd res (if res = ''X'' then Some (player1 m)
                             else if res = ''O'' then Some (player2 m) else None)
                  rsn (board m))] else []) @
      (if player2SocketId m \<in> set (playerSessions s)
       then [Emit (player2SocketId m)
               (GameEnd res (if res = ''X'' then Some (player1 m)
                             else if res = ''O'' then Some (player2 m) else None)
                  rsn (board m))] else []) @
      [SetTimeout 60000 mid])"
  by (simp add: endGame_def notifyPlayers_def Let_def AList.update_conv')

lemma onMakeMove_reject:
  "map_of (activeMatches s) mid = None \<or>
   (\<exists>m. map_of (activeMatches s) mid = Some m \<and>
        (\<not> gameActive m \<or> cellAt (board m) (row * 3 + col) \<noteq> Some '''')) \<Longrightarrow>
   onMakeMove mid row col symbol s = (s, [])"
  by (auto simp: onMakeMove_def Let_def)

lemma onMakeMove_accept:
  assumes "map_of (activeMatches s) mid = Some m" and "gameActive m"
    and "cellAt (board m) (row * 3 + col) = Some ''''"
  shows "onMakeMove mid row col symbol s =
     (let b' = (board m)[nat (row * 3 + col) := symbol];
          m1 = m\<lparr>board := b', moves := moves m @ [(row, col, symbol)]\<rparr>;
          s1 = s\<lparr>activeMatches := AList.update mid m1 (activeMatches s)\<rparr>
      in if checkWin b' symbol then endGame mid symbol NORMAL s1
         else if checkDraw b' then endGame mid ''DRAW'' NORMAL s1
         else (s\<lparr>activeMatches := AList.update mid
                   (m1\<lparr>currentPlayer := (if currentPlayer m = ''X'' then ''O'' else ''X'')\<rparr>)
                   (activeMatches s)\<rparr>,
               (if player1SocketId m \<in> set (playerSessions s)
                then [Emit (player1SocketId m)
                        (MoveMade row col symbol (if currentPlayer m = ''X'' then ''O'' else ''X''))]
                else []) @
               (if player2SocketId m \<in> set (playerSessions s)
                then [Emit (player2SocketId m)
                        (MoveMade row col symbol (if currentPlayer m = ''X'' then ''O'' else ''X''))]
                else [])))"
  using assms by (simp add: onMakeMove_def Let_def notifyPlayers_def AList.update_conv')


subsection \<open>Pairing, and the board as the replay of the moves\<close>



lemma findMatch_pair:
  assumes "map_of (waitingPlayers s) (stake pd) = Some (w # ws)"
  shows "\<exists>m. findMatch uuid pd s =
           (Inr (Some m),
            s\<lparr>waitingPlayers :=
                 (if ws = [] then AList.delete (stake pd) (waitingPlayers s)
                  else AList.update (stake pd) ws (waitingPlayers s)),
               activeMatches := AList.update uuid m (activeMatches s)\<rparr>,
            (if socketId w \<in> set (playerSessions s)
             then [Emit (socketId w) (MatchFound m)] else []) @
            (if socketId pd \<in> set (playerSessions s)
             then [Emit (socketId pd) (MatchFound m)] else [])) \<and>
         matchId m = uuid \<and> player1 m = address w \<and> player2 m = address pd \<and>
         m_stake m = stake pd \<and> status m = CREATED \<and> board m = replicate 9 '''' \<and>
         currentPlayer m = ''X'' \<and> \<not> gameActive m \<and> \<not> player1Staked m \<and>
         \<not> player2Staked m \<and> blockchainMatchId m = None \<and> moves m = [] \<and>
         player1SocketId m = socketId w \<and> player2SocketId m = socketId pd \<and>
         result m = None \<and> endReason m = None"
  using assms by (simp add: findMatch_def Let_def)

lemma findMatch_enqueue:
  "map_of (waitingPlayers s) (stake pd) = None \<Longrightarrow>
   findMatch uuid pd s =
     (Inr None, s\<lparr>waitingPlayers := AList.update (stake pd) [pd] (waitingPlayers s)\<rparr>, [])"
  by (simp add: findMatch_def)

lemma findMatch_empty:
  "map_of (waitingPlayers s) (stake pd) = Some [] \<Longrightarrow>
   findMatch uuid pd s =
     (Inl TypeError, s\<lparr>waitingPlayers := AList.delete (stake pd) (waitingPlayers s)\<rparr>, [])"
  by (simp add: findMatch_def)

lemma onFindMatch_fst:
  "\<not> has (preStakedPlayers s) addr \<Longrightarrow>
   fst (onFindMatch sid addr stk now uuid s) =
     fst (snd (findMatch uuid \<lparr>address = addr, stake = stk, socketId = sid\<rparr>
       (s\<lparr>preStakedPlayers :=
            AList.update addr
              \<lparr>ps_stake = stk, timestamp = now, ps_socketId = sid,
               confirmed = False, ps_blockchainMatchId = None\<rparr>
              (preStakedPlayers s)\<rparr>)))"
  by (simp add: onFindMatch_def Let_def split: prod.splits sum.splits option.splits)

lemma findMatch_activeMatches:
  "activeMatches (fst (snd (findMatch uuid pd s))) = activeMatches s \<or>
   (\<exists>m. activeMatches (fst (snd (findMatch uuid pd s))) = AList.update uuid m (activeMatches s) \<and>
        board m = replicate 9 '''' \<and> moves m = [] \<and> \<not> gameActive m)"
proof (cases "map_of (waitingPlayers s) (stake pd)")
  case None
  then show ?thesis by (simp add: findMatch_enqueue)
next
  case (Some bucket)
  show ?thesis
  proof (cases bucket)
    case Nil
    then show ?thesis using Some by (simp add: findMatch_empty)
  next
    case (Cons w ws)
    with Some have "map_of (waitingPlayers s) (stake pd) = Some (w # ws)" by simp
    from findMatch_pair [OF this, of uuid] obtain m where
      "findMatch uuid pd s =
           (Inr (Some m),
            s\<lparr>waitingPlayers :=
                 (if ws = [] then AList.delete (stake pd) (waitingPlayers s)
                  else AList.update (stake pd) ws (waitingPlayers s)),
               activeMatches := AList.update uuid m (activeMatches s)\<rparr>,
            (if socketId w \<in> set (playerSessions s)
             then [Emit (socketId w) (MatchFound m)] else []) @
            (if socketId pd \<in> set (playerSessions s)
             then [Emit (socketId pd) (MatchFound m)] else []))"
      and "board m = replicate 9 ''''" and "moves m = []" and "\<not> gameActive m"
      by blast
    then show ?thesis by auto
  qed
qed

lemma onFindMatch_activeMatches:
  "activeMatches (fst (onFindMatch sid addr stk now uuid s)) = activeMatches s \<or>
   (\<exists>m. activeMatches (fst (onFindMatch sid addr stk now uuid s)) =
          AList.update uuid m (activeMatches s) \<and>
        board m = replicate 9 '''' \<and> moves m = [] \<and> \<not> gameActive m)"
proof (cases "has (preStakedPlayers s) addr")
  case True
  then show ?thesis by (simp add: onFindMatch_def)
next
  case False
  show ?thesis
    using findMatch_activeMatches [of uuid "\<lparr>address = addr, stake = stk, socketId = sid\<rparr>"
        "s\<lparr>preStakedPlayers :=
            AList.update addr
              \<lparr>ps_stake = stk, timestamp = now, ps_socketId = sid,
               confirmed = False, ps_blockchainMatchId = None\<rparr>
              (preStakedPlayers s)\<rparr>"]
    by (simp add: onFindMatch_fst [OF False])
qed








lemma activeMatches_sweepLoop [simp]: "activeMatches (sweepLoop now ps s) = activeMatches s"
  by (induction now ps s rule: sweepLoop.induct) simp_all







subsection \<open>Buckets of the waiting pool are never empty\<close>









lemma waitingPlayers_onMakeMove [simp]:
  "waitingPlayers (fst (onMakeMove mid row col symbol s)) = waitingPlayers s"
  by (simp add: onMakeMove_def Let_def split: option.splits)







subsection \<open>The example traces\<close>

lemma replicate_9: "replicate 9 x = [x, x, x, x, x, x, x, x, x]"
  by (simp add: numeral_eq_Suc)

lemmas eval_defs = onConnection_def onFindMatch_def onPreStakeConfirmed_def onMatchCreated_def
  onNotifyPlayer2_def onPlayerStaked_def onCancelMatchmaking_def onMakeMove_def onForfeitMatch_def
  onDisconnect_def onSweep_def onEvict_def findMatch_def endGame_def notifyPlayers_def
  checkWin_def checkDraw_def winConditions_def cellAt_def has_def toLowerCase_def lowerChar_def
  AList.delete_eq PRE_STAKE_TIMEOUT_def Let_def initial_def replicate_9

lemmas state_defs = createdMatch_def joinedState_def startedMatch_def startedState_def
  fourMovesMatch_def fourMovesState_def

lemma run_append: "run (xs @ ys) s = run ys (run xs s)"
  by (induction xs arbitrary: s) simp_all

lemma run_joined: "run joined initial = joinedState"
  by (simp add: joined_def eval_defs state_defs)

lemma run_started: "run started initial = startedState"
  by (simp add: started_def run_append run_joined) (simp add: eval_defs state_defs)


subsection \<open>Moves\<close>










subsection \<open>Disconnects\<close>

lemma find_lookup:
  assumes "distinct (map fst al)" and "find P al = Some (k, v)"
  shows "map_of al k = Some v"
proof -
  from assms(2) have "(k, v) \<in> set al"
    by (auto simp: find_Some_iff in_set_conv_nth)
  with assms(1) show ?thesis by simp
qed

lemma onDisconnect_snd:
  "snd (onDisconnect sid s) =
     (case find (\<lambda>(mid, m). player1SocketId m = sid \<or> player2SocketId m = sid)
             (activeMatches s) of
        None \<Rightarrow> []
      | Some (mid, m) \<Rightarrow>
          snd (endGame mid (if player1SocketId m = sid then player2 m else player1 m) DISCONNECT
                (s\<lparr>waitingPlayers :=
                     removeWaiting (\<lambda>p. socketId p = sid) (waitingPlayers s)\<rparr>)))"
  by (simp add: onDisconnect_def Let_def case_prod_beta split: option.splits)

lemma onDisconnect_activeMatches:
  "activeMatches (fst (onDisconnect sid s)) =
     (case find (\<lambda>(mid, m). player1SocketId m = sid \<or> player2SocketId m = sid)
             (activeMatches s) of
        None \<Rightarrow> activeMatches s
      | Some (mid, m) \<Rightarrow>
          activeMatches
            (fst (endGame mid (if player1SocketId m = sid then player2 m else player1 m) DISCONNECT
                (s\<lparr>waitingPlayers :=
                     removeWaiting (\<lambda>p. socketId p = sid) (waitingPlayers s)\<rparr>))))"
  by (simp add: onDisconnect_fst Let_def split: option.splits)

lemma onDisconnect_first_match:
  assumes "wf s"
    and "find (\<lambda>(mid, m). player1SocketId m = sid \<or> player2SocketId m = sid) (activeMatches s) =
           Some (mid, m)"
    and "w = (if player1SocketId m = sid then player2 m else player1 m)"
  shows "activeMatches (fst (onDisconnect sid s)) =
           AList.update mid
             (m\<lparr>status := COMPLETED, gameActive := False, result := Some w,
                endReason := Some DISCONNECT\<rparr>) (activeMatches s)"
    and "snd (onDisconnect sid s) =
           (if player1SocketId m \<in> set (playerSessions s)
            then [Emit (player1SocketId m)
                    (GameEnd w (if w = ''X'' then Some (player1 m)
                                else if w = ''O'' then Some (player2 m) else None)
                       DISCONNECT (board m))] else []) @
           (if player2SocketId m \<in> set (playerSessions s)
            then [Emit (player2SocketId m)
                    (GameEnd w (if w = ''X'' then Some (player1 m)
                                else if w = ''O'' then Some (player2 m) else None)
                       DISCONNECT (board m))] else []) @
           [SetTimeout 60000 mid]"
proof -
  let ?s1 = "s\<lparr>waitingPlayers := removeWaiting (\<lambda>p. socketId p = sid) (waitingPlayers s)\<rparr>"
  from assms(1) have "distinct (map fst (activeMatches s))" by (simp add: wf_def)
  then have "map_of (activeMatches s) mid = Some m" using assms(2) by (rule find_lookup)
  then have l: "map_of (activeMatches ?s1) mid = Some m" by simp
  show "activeMatches (fst (onDisconnect sid s)) =
           AList.update mid
             (m\<lparr>status := COMPLETED, gameActive := False, result := Some w,
                endReason := Some DISCONNECT\<rparr>) (activeMatches s)"
    using assms(3) by (simp add: onDisconnect_activeMatches assms(2) endGame_eq [OF l])
  show "snd (onDisconnect sid s) =
           (if player1SocketId m \<in> set (playerSessions s)
            then [Emit (player1SocketId m)
                    (GameEnd w (if w = ''X'' then Some (player1 m)
                                else if w = ''O'' then Some (player2 m) else None)
                       DISCONNECT (board m))] else []) @
           (if player2SocketId m \<in> set (playerSessions s)
            then [Emit (player2SocketId m)
                    (GameEnd w (if w = ''X'' then Some (player1 m)
                                else if w = ''O'' then Some (player2 m) else None)
                       DISCONNECT (board m))] else []) @
           [SetTimeout 60000 mid]"
    using assms(3) by (simp add: onDisconnect_snd assms(2) endGame_eq [OF l])
qed

lemma onDisconnect_completed_stays:
  assumes "map_of (activeMatches s) k = Some m" and "status m = COMPLETED"
  shows "\<exists>m'. map_of (activeMatches (fst (onDisconnect sid s))) k = Some m' \<and> status m' = COMPLETED"
proof (cases "find (\<lambda>(mid, m). player1SocketId m = sid \<or> player2SocketId m = sid) (activeMatches s)")
  case None
  then show ?thesis using assms by (simp add: onDisconnect_activeMatches)
next
  case (Some p)
  obtain mid m0 where p: "p = (mid, m0)" by (cases p)
  show ?thesis
    using assms
    by (auto simp: onDisconnect_activeMatches Some p endGame_activeMatches AList.update_conv'
        split: option.splits)
qed

text \<open>
  Claim C10, amended: when a connection drops, the first match of the table (in
  insertion order) that references it is finalized, whatever its status: it becomes
  COMPLETED and inactive, with reason DISCONNECT and the other participant's address as
  result.  Every other match of the table is left as it was.  The state is taken to be
  well formed, as every reachable state is (\<open>wf_run\<close>).
\<close>

theorem C10_disconnect_finalizes_first_match:
  assumes "wf s"
    and "find (\<lambda>(mid, m). player1SocketId m = sid \<or> player2SocketId m = sid) (activeMatches s) =
           Some (mid, m)"
  shows "(\<exists>m'. map_of (activeMatches (fst (handle (Disconnect sid) s))) mid = Some m' \<and>
             status m' = COMPLETED \<and> \<not> gameActive m' \<and> endReason m' = Some DISCONNECT \<and>
             result m' = Some (if player1SocketId m = sid then player2 m else player1 m)) \<and>
         (\<forall>k. k \<noteq> mid \<longrightarrow>
             map_of (activeMatches (fst (handle (Disconnect sid) s))) k =
             map_of (activeMatches s) k)"
  by (simp add: onDisconnect_first_match(1) [OF assms refl] AList.update_conv')

text \<open>
  Claim C10 says that every match that references the dropped connection is finalized.
  The loop over the table stops at its first hit: after \<open>twoMatches\<close> the socket
  \<open>s1\<close> is player 1 of both \<open>m1\<close> and \<open>m2\<close>, and its disconnect finalizes \<open>m1\<close>
  only; \<open>m2\<close> stays CREATED with no end reason.
\<close>

theorem C10_counterexample:
  "map_option player1SocketId (map_of (activeMatches (run twoMatches initial)) ''m2'') =
     Some ''s1'' \<and>
   map_option status
     (map_of (activeMatches (fst (handle (Disconnect ''s1'') (run twoMatches initial)))) ''m2'') =
     Some CREATED \<and>
   map_option endReason
     (map_of (activeMatches (fst (handle (Disconnect ''s1'') (run twoMatches initial)))) ''m2'') =
     Some None \<and>
   map_option endReason
     (map_of (activeMatches (fst (handle (Disconnect ''s1'') (run twoMatches initial)))) ''m1'') =
     Some (Some DISCONNECT)"
  by (simp add: twoMatches_def eval_defs)

text \<open>
  The theorem of C10 on the state with two matches: \<open>m1\<close>, created and never staked,
  is finalized when \<open>s1\<close> drops, and \<open>m2\<close> is as before.
\<close>

theorem C10_witness:
  "map_option status (map_of (activeMatches (run twoMatches initial)) ''m1'') = Some CREATED \<and>
   map_option status
     (map_of (activeMatches (fst (handle (Disconnect ''s1'') (run twoMatches initial)))) ''m1'') =
     Some COMPLETED \<and>
   map_option result
     (map_of (activeMatches (fst (handle (Disconnect ''s1'') (run twoMatches initial)))) ''m1'') =
     Some (Some ''0xB'') \<and>
   map_of (activeMatches (fst (handle (Disconnect ''s1'') (run twoMatches initial)))) ''m2'' =
     map_of (activeMatches (run twoMatches initial)) ''m2''"
proof -
  have w: "wf (run twoMatches initial)" using wf_initial by (rule wf_run)
  have f: "find (\<lambda>(mid, m). player1SocketId m = ''s1'' \<or> player2SocketId m = ''s1'')
             (activeMatches (run twoMatches initial)) = Some (''m1'', createdMatch)"
    by (simp add: twoMatches_def eval_defs state_defs)
  have c: "map_option status (map_of (activeMatches (run twoMatches initial)) ''m1'') = Some CREATED"
    by (simp add: twoMatches_def eval_defs)
  from C10_disconnect_finalizes_first_match [OF w f]
  have "\<exists>m'. map_of (activeMatches (fst (handle (Disconnect ''s1'') (run twoMatches initial)))) ''m1'' =
               Some m' \<and>
             status m' = COMPLETED \<and> \<not> gameActive m' \<and> endReason m' = Some DISCONNECT \<and>
             result m' = Some (if player1SocketId createdMatch = ''s1'' then player2 createdMatch
                               else player1 createdMatch)"
    and "\<forall>k. k \<noteq> ''m1'' \<longrightarrow>
             map_of (activeMatches (fst (handle (Disconnect ''s1'') (run twoMatches initial)))) k =
             map_of (activeMatches (run twoMatches initial)) k"
    by (rule conjunct1, rule conjunct2)
  then have "map_option status
     (map_of (activeMatches (fst (handle (Disconnect ''s1'') (run twoMatches initial)))) ''m1'') =
     Some COMPLETED"
    and "map_option result
     (map_of (activeMatches (fst (handle (Disconnect ''s1'') (run twoMatches initial)))) ''m1'') =
     Some (Some ''0xB'')"
    and "map_of (activeMatches (fst (handle (Disconnect ''s1'') (run twoMatches initial)))) ''m2'' =
     map_of (activeMatches (run twoMatches initial)) ''m2''"
    by (auto simp: state_defs)
  with c show ?thesis by simp
qed

text \<open>
  Claim C3, amended: if a connection drops while the first match of the table that
  references it is active, that match is finalized at once: status COMPLETED, inactive,
  reason DISCONNECT, the other participant's address as result, \<open>gameEnd\<close> sent to the
  registered participants and the eviction timer started (in a well-formed state, as
  every reachable state is).  A match that is COMPLETED is still COMPLETED after any
  later disconnect event.
\<close>

theorem C3_disconnect_active_match:
  "(wf s \<and>
    find (\<lambda>(mid, m). player1SocketId m = sid \<or> player2SocketId m = sid) (activeMatches s) =
      Some (mid, m) \<and>
    gameActive m \<and> w = (if player1SocketId m = sid then player2 m else player1 m)
    \<longrightarrow> (\<exists>m'. map_of (activeMatches (fst (handle (Disconnect sid) s))) mid = Some m' \<and>
              status m' = COMPLETED \<and> \<not> gameActive m' \<and> endReason m' = Some DISCONNECT \<and>
              result m' = Some w \<and> board m' = board m) \<and>
        snd (handle (Disconnect sid) s) =
          (if player1SocketId m \<in> set (playerSessions s)
           then [Emit (player1SocketId m)
                   (GameEnd w (if w = ''X'' then Some (player1 m)
                               else if w = ''O'' then Some (player2 m) else None)
                      DISCONNECT (board m))] else []) @
          (if player2SocketId m \<in> set (playerSessions s)
           then [Emit (player2SocketId m)
                   (GameEnd w (if w = ''X'' then Some (player1 m)
                               else if w = ''O'' then Some (player2 m) else None)
                      DISCONNECT (board m))] else []) @
          [SetTimeout 60000 mid]) \<and>
   (map_of (activeMatches s') k = Some m2 \<and> status m2 = COMPLETED
    \<longrightarrow> (\<exists>m3. map_of (activeMatches (fst (handle (Disconnect sid') s'))) k = Some m3 \<and>
              status m3 = COMPLETED))"
proof (rule conjI; rule impI)
  assume a: "wf s \<and>
    find (\<lambda>(mid, m). player1SocketId m = sid \<or> player2SocketId m = sid) (activeMatches s) =
      Some (mid, m) \<and>
    gameActive m \<and> w = (if player1SocketId m = sid then player2 m else player1 m)"
  then have 1: "wf s"
    and 2: "find (\<lambda>(mid, m). player1SocketId m = sid \<or> player2SocketId m = sid) (activeMatches s) =
      Some (mid, m)"
    and 3: "w = (if player1SocketId m = sid then player2 m else player1 m)"
    by simp_all
  have "\<exists>m'. map_of (activeMatches (fst (handle (Disconnect sid) s))) mid = Some m' \<and>
             status m' = COMPLETED \<and> \<not> gameActive m' \<and> endReason m' = Some DISCONNECT \<and>
             result m' = Some w \<and> board m' = board m"
    by (simp add: onDisconnect_first_match(1) [OF 1 2 3] AList.update_conv')
  moreover have "snd (handle (Disconnect sid) s) =
           (if player1SocketId m \<in> set (playerSessions s)
            then [Emit (player1SocketId m)
                    (GameEnd w (if w = ''X'' then Some (player1 m)
                                else if w = ''O'' then Some (player2 m) else None)
                       DISCONNECT (board m))] else []) @
           (if player2SocketId m \<in> set (playerSessions s)
            then [Emit (player2SocketId m)
                    (GameEnd w (if w = ''X'' then Some (player1 m)
                                else if w = ''O'' then Some (player2 m) else None)
                       DISCONNECT (board m))] else []) @
           [SetTimeout 60000 mid]"
    using onDisconnect_first_match(2) [OF 1 2 3] by simp
  ultimately show "(\<exists>m'. map_of (activeMatches (fst (handle (Disconnect sid) s))) mid = Some m' \<and>
              status m' = COMPLETED \<and> \<not> gameActive m' \<and> endReason m' = Some DISCONNECT \<and>
              result m' = Some w \<and> board m' = board m) \<and>
        snd (handle (Disconnect sid) s) =
          (if player1SocketId m \<in> set (playerSessions s)
           then [Emit (player1SocketId m)
                   (GameEnd w (if w = ''X'' then Some (player1 m)
                               else if w = ''O'' then Some (player2 m) else None)
                      DISCONNECT (board m))] else []) @
          (if player2SocketId m \<in> set (playerSessions s)
           then [Emit (player2SocketId m)
                   (GameEnd w (if w = ''X'' then Some (player1 m)
                               else if w = ''O'' then Some (player2 m) else None)
                      DISCONNECT (board m))] else []) @
          [SetTimeout 60000 mid]"
    by (rule conjI)
next
  assume "map_of (activeMatches s') k = Some m2 \<and> status m2 = COMPLETED"
  then show "\<exists>m3. map_of (activeMatches (fst (handle (Disconnect sid') s'))) k = Some m3 \<and>
                  status m3 = COMPLETED"
    using onDisconnect_completed_stays [of s' k m2 sid'] by simp
qed

text \<open>
  Claim C3 says that a second disconnect event for the same match is a no-op.
  \<open>endGame\<close> does not look at the status: when player 2 of the started match drops
  after player 1 has, the result recorded for the match changes from player 2's address
  to player 1's, and a second \<open>gameEnd\<close> and a second timer are issued.
\<close>

theorem C3_counterexample:
  "map_option result
     (map_of (activeMatches (fst (handle (Disconnect ''s1'') (run started initial)))) ''m1'') =
     Some (Some ''0xB'') \<and>
   map_option result
     (map_of (activeMatches
        (fst (handle (Disconnect ''s2'') (fst (handle (Disconnect ''s1'') (run started initial))))))
        ''m1'') =
     Some (Some ''0xA'') \<and>
   snd (handle (Disconnect ''s2'') (fst (handle (Disconnect ''s1'') (run started initial)))) =
     [Emit ''s2'' (GameEnd ''0xA'' None DISCONNECT
        ['''', '''', '''', '''', '''', '''', '''', '''', '''']),
      SetTimeout 60000 ''m1'']"
  by (simp add: run_started) (simp add: eval_defs state_defs)

text \<open>
  The theorem of C3 on the started match when player 1 drops, and on the completed match
  when player 2 drops afterwards.
\<close>

theorem C3_witness:
  "map_option result
     (map_of (activeMatches (fst (handle (Disconnect ''s1'') startedState))) ''m1'') =
     Some (Some ''0xB'') \<and>
   length (snd (handle (Disconnect ''s1'') startedState)) = 3 \<and>
   map_option status
     (map_of (activeMatches
        (fst (handle (Disconnect ''s2'') (fst (handle (Disconnect ''s1'') startedState))))) ''m1'') =
     Some COMPLETED"
proof -
  let ?c = "fst (handle (Disconnect ''s1'') startedState)"
  let ?mc = "startedMatch\<lparr>status := COMPLETED, gameActive := False, result := Some ''0xB'',
               endReason := Some DISCONNECT\<rparr>"
  have w: "wf startedState" by (simp add: wf_def state_defs)
  have f: "find (\<lambda>(mid, m). player1SocketId m = ''s1'' \<or> player2SocketId m = ''s1'')
             (activeMatches startedState) = Some (''m1'', startedMatch)"
    by (simp add: state_defs)
  have g: "gameActive startedMatch" by (simp add: state_defs)
  have o: "''0xB'' = (if player1SocketId startedMatch = ''s1'' then player2 startedMatch
                      else player1 startedMatch)"
    by (simp add: state_defs)
  have c: "map_of (activeMatches ?c) ''m1'' = Some ?mc"
    by (simp add: eval_defs state_defs)
  have d: "status ?mc = COMPLETED" by simp
  note T = C3_disconnect_active_match
    [where s = startedState and sid = "''s1''" and mid = "''m1''" and m = startedMatch
       and w = "''0xB''" and s' = ?c and k = "''m1''" and ?m2.0 = ?mc and sid' = "''s2''"]
  have A: "(\<exists>m'. map_of (activeMatches (fst (handle (Disconnect ''s1'') startedState))) ''m1'' = Some m' \<and>
             status m' = COMPLETED \<and> \<not> gameActive m' \<and> endReason m' = Some DISCONNECT \<and>
             result m' = Some ''0xB'' \<and> board m' = board startedMatch) \<and>
        snd (handle (Disconnect ''s1'') startedState) =
           (if player1SocketId startedMatch \<in> set (playerSessions startedState)
            then [Emit (player1SocketId startedMatch)
                    (GameEnd ''0xB'' (if ''0xB'' = ''X'' then Some (player1 startedMatch)
                                else if ''0xB'' = ''O'' then Some (player2 startedMatch) else None)
                       DISCONNECT (board startedMatch))] else []) @
           (if player2SocketId startedMatch \<in> set (playerSessions startedState)
            then [Emit (player2SocketId startedMatch)
                    (GameEnd ''0xB'' (if ''0xB'' = ''X'' then Some (player1 startedMatch)
                                else if ''0xB'' = ''O'' then Some (player2 startedMatch) else None)
                       DISCONNECT (board startedMatch))] else []) @
           [SetTimeout 60000 ''m1'']"
    by (rule mp [OF T [THEN conjunct1]]) (intro conjI w f g o)
  have B: "\<exists>m3. map_of (activeMatches (fst (handle (Disconnect ''s2'') ?c))) ''m1'' = Some m3 \<and>
              status m3 = COMPLETED"
    by (rule mp [OF T [THEN conjunct2]]) (intro conjI c d)
  from A B show ?thesis by (auto simp: state_defs)
qed

subsection \<open>Matchmaking and pre-stakes\<close>

lemma run_waiting: "run waiting initial = waitingState"
  by (simp add: waiting_def waitingState_def eval_defs)


lemma delete_absent: "map_of al k = None \<Longrightarrow> AList.delete k al = al"
  by (induction al) (auto split: if_splits)

lemma map_of_snoc_new: "map_of al k = None \<Longrightarrow> map_of (al @ [(k, v)]) k = Some v"
  by (induction al) (auto split: if_splits)


lemma count_key_le_1:
  "distinct (map fst al) \<Longrightarrow> length (filter (\<lambda>(a, p). a = k) al) \<le> 1"
proof (induction al)
  case Nil
  then show ?case by simp
next
  case (Cons x al)
  obtain a p where x: "x = (a, p)" by (cases x)
  show ?case
  proof (cases "a = k")
    case True
    with Cons.prems x have "k \<notin> fst ` set al" by simp
    then have "filter (\<lambda>(a, p). a = k) al = []"
      by (force simp: filter_empty_conv)
    with True x show ?thesis by simp
  next
    case False
    with Cons x show ?thesis by simp
  qed
qed






text \<open>
  Claim C6: in every reachable state an address has at most one entry in
  \<open>preStakedPlayers\<close>; a join-intent for an address that has an entry is answered with
  the error status and leaves the whole state (pre-stakes, waiting pool, match table)
  unchanged.
\<close>

theorem C6_one_preStake_duplicate_rejected:
  "length (filter (\<lambda>(a, p). a = addr) (preStakedPlayers (run evs initial))) \<le> 1 \<and>
   (has (preStakedPlayers s) addr' \<longrightarrow>
      handle (FindMatch sid addr' stk now uuid) s =
        (s, [Emit sid (MatchmakingStatus ''error'' AlreadyPending)]))"
proof
  have "wf (run evs initial)" using wf_initial by (rule wf_run)
  then have "distinct (map fst (preStakedPlayers (run evs initial)))" by (simp add: wf_def)
  then show "length (filter (\<lambda>(a, p). a = addr) (preStakedPlayers (run evs initial))) \<le> 1"
    by (rule count_key_le_1)
next
  show "has (preStakedPlayers s) addr' \<longrightarrow>
      handle (FindMatch sid addr' stk now uuid) s =
        (s, [Emit sid (MatchmakingStatus ''error'' AlreadyPending)])"
    by (simp add: onFindMatch_def)
qed

text \<open>
  The theorem of C6 when 0xA, already waiting, joins again.
\<close>

theorem C6_witness:
  "has (preStakedPlayers waitingState) ''0xA'' \<and>
   handle (FindMatch ''s2'' ''0xA'' 100 5000 ''u9'') waitingState =
     (waitingState, [Emit ''s2'' (MatchmakingStatus ''error'' AlreadyPending)])"
proof -
  have h: "has (preStakedPlayers waitingState) ''0xA''"
    by (simp add: has_def waitingState_def)
  from C6_one_preStake_duplicate_rejected [of "''0xA''" waiting waitingState "''0xA''" "''s2''" 100 5000 "''u9''"]
  have "handle (FindMatch ''s2'' ''0xA'' 100 5000 ''u9'') waitingState =
     (waitingState, [Emit ''s2'' (MatchmakingStatus ''error'' AlreadyPending)])"
    using h by blast
  with h show ?thesis by simp
qed

subsection \<open>Stake confirmation\<close>

lemma endGame_not_activating:
  assumes "map_of (activeMatches (fst (endGame mid res rsn s))) k = Some m'" and "gameActive m'"
  shows "\<exists>m. map_of (activeMatches s) k = Some m \<and> gameActive m"
  using assms
  by (auto simp: endGame_activeMatches AList.update_conv' split: option.splits if_splits)

lemma onMakeMove_not_activating:
  assumes "map_of (activeMatches (fst (onMakeMove mid row col symbol s))) k = Some m'"
    and "gameActive m'"
  shows "\<exists>m. map_of (activeMatches s) k = Some m \<and> gameActive m"
proof (cases "\<exists>m. map_of (activeMatches s) mid = Some m \<and> gameActive m \<and>
                 cellAt (board m) (row * 3 + col) = Some ''''")
  case False
  then have "onMakeMove mid row col symbol s = (s, [])"
    by (intro onMakeMove_reject) (cases "map_of (activeMatches s) mid", auto)
  then show ?thesis using assms by simp
next
  case True
  then obtain m where m: "map_of (activeMatches s) mid = Some m" "gameActive m"
    "cellAt (board m) (row * 3 + col) = Some ''''" by blast
  show ?thesis
  proof (cases "k = mid")
    case True
    then show ?thesis using m by simp
  next
    case False
    define m1 where "m1 = m\<lparr>board := (board m)[nat (row * 3 + col) := symbol],
                             moves := moves m @ [(row, col, symbol)]\<rparr>"
    define s1 where "s1 = s\<lparr>activeMatches := AList.update mid m1 (activeMatches s)\<rparr>"
    define s2 where "s2 = s\<lparr>activeMatches := AList.update mid
                     (m1\<lparr>currentPlayer := (if currentPlayer m = ''X'' then ''O'' else ''X'')\<rparr>)
                     (activeMatches s)\<rparr>"
    have l1: "map_of (activeMatches s1) mid = Some m1" by (simp add: s1_def AList.update_conv')
    have k1: "map_of (activeMatches s1) k = map_of (activeMatches s) k"
      using False by (simp add: s1_def AList.update_conv')
    have k2: "map_of (activeMatches s2) k = map_of (activeMatches s) k"
      using False by (simp add: s2_def AList.update_conv')
    have ke: "map_of (activeMatches (fst (endGame mid r NORMAL s1))) k = map_of (activeMatches s) k"
      for r using False k1 by (simp add: endGame_eq [OF l1] AList.update_conv')
    have "fst (onMakeMove mid row col symbol s) = fst (endGame mid symbol NORMAL s1) \<or>
          fst (onMakeMove mid row col symbol s) = fst (endGame mid ''DRAW'' NORMAL s1) \<or>
          fst (onMakeMove mid row col symbol s) = s2"
      by (simp add: onMakeMove_accept [OF m] Let_def m1_def s1_def s2_def)
    then have "map_of (activeMatches (fst (onMakeMove mid row col symbol s))) k =
               map_of (activeMatches s) k"
      using ke k2 by auto
    with assms(1) have "map_of (activeMatches s) k = Some m'" by simp
    with assms(2) show ?thesis by blast
  qed
qed

lemma onDisconnect_not_activating:
  assumes "map_of (activeMatches (fst (onDisconnect sid s))) k = Some m'" and "gameActive m'"
  shows "\<exists>m. map_of (activeMatches s) k = Some m \<and> gameActive m"
proof (cases "find (\<lambda>(mid, m). player1SocketId m = sid \<or> player2SocketId m = sid) (activeMatches s)")
  case None
  then show ?thesis using assms by (simp add: onDisconnect_activeMatches)
next
  case (Some p)
  obtain mid m0 where p: "p = (mid, m0)" by (cases p)
  let ?s1 = "s\<lparr>waitingPlayers := removeWaiting (\<lambda>p. socketId p = sid) (waitingPlayers s)\<rparr>"
  have "map_of (activeMatches (fst (endGame mid
          (if player1SocketId m0 = sid then player2 m0 else player1 m0) DISCONNECT ?s1))) k = Some m'"
    using assms(1) by (simp add: onDisconnect_activeMatches Some p)
  from endGame_not_activating [OF this assms(2)] show ?thesis by simp
qed

lemma onFindMatch_not_activating:
  assumes "map_of (activeMatches (fst (onFindMatch sid addr stk now uuid s))) k = Some m'"
    and "gameActive m'"
  shows "\<exists>m. map_of (activeMatches s) k = Some m \<and> gameActive m"
  using onFindMatch_activeMatches [of sid addr stk now uuid s] assms
  by (auto simp: AList.update_conv' split: if_splits)

lemma onMatchCreated_not_activating:
  assumes "map_of (activeMatches (fst (onMatchCreated mid ps bcid s))) k = Some m'"
    and "gameActive m'"
  shows "\<exists>m. map_of (activeMatches s) k = Some m \<and> gameActive m"
  using assms
  by (auto simp: onMatchCreated_def Let_def AList.update_conv' split: option.splits if_splits)

lemma onPlayerStaked_activating:
  assumes "map_of (activeMatches (fst (onPlayerStaked mid player s))) k = Some m'"
    and "gameActive m'"
    and "\<not> (\<exists>m. map_of (activeMatches s) k = Some m \<and> gameActive m)"
  shows "k = mid \<and> player1Staked m' \<and> player2Staked m' \<and> status m' = STAKED"
  using assms
  by (auto simp: onPlayerStaked_def Let_def AList.update_conv' split: option.splits if_splits)

lemma other_handlers_not_activating:
  assumes "map_of (activeMatches (fst (handle e s))) k = Some m'" and "gameActive m'"
    and "\<forall>sid mid player. e \<noteq> PlayerStaked sid mid player"
  shows "\<exists>m. map_of (activeMatches s) k = Some m \<and> gameActive m"
proof (cases e)
  case (Connection sid)
  then show ?thesis using assms by (simp add: onConnection_def)
next
  case (FindMatch sid addr stk now uuid)
  then show ?thesis using assms onFindMatch_not_activating by simp
next
  case (PreStakeConfirmed sid addr bcid)
  then show ?thesis using assms by (simp add: onPreStakeConfirmed_def split: option.splits)
next
  case (MatchCreated sid mid ps bcid)
  then show ?thesis using assms onMatchCreated_not_activating by simp
next
  case (NotifyPlayer2 sid mid bcid createdBy)
  then show ?thesis using assms by (simp add: onNotifyPlayer2_def)
next
  case (PlayerStaked sid mid player)
  then show ?thesis using assms by simp
next
  case (CancelMatchmaking sid addr)
  then show ?thesis using assms by (simp add: onCancelMatchmaking_def split: if_splits)
next
  case (MakeMove sid mid row col symbol)
  then show ?thesis using assms onMakeMove_not_activating by simp
next
  case (ForfeitMatch sid mid addr)
  then show ?thesis using assms endGame_not_activating
    by (simp add: onForfeitMatch_def split: option.splits)
next
  case (Disconnect sid)
  then show ?thesis using assms onDisconnect_not_activating by simp
next
  case (Sweep now)
  then show ?thesis using assms by (simp add: onSweep_def)
next
  case (Evict mid)
  then show ?thesis using assms
    by (auto simp: onEvict_def AList.delete_conv' split: if_splits)
qed

lemma state_update_triv:
  "map_of (activeMatches s) mid = Some m \<Longrightarrow>
   s\<lparr>activeMatches := AList.update mid m (activeMatches s)\<rparr> = s"
  by (simp add: AList.update_triv)

text \<open>
  Claim C7, amended: a match that is not active before an event and active after it has
  been handled by \<open>playerStaked\<close> for that match, and then has both staked flags set
  and status STAKED.  When \<open>playerStaked\<close> sets the flag of player 2 and player 1 is
  already staked, the match becomes active and each registered participant receives
  \<open>gameStart\<close>, player 1 with marker X as first mover and player 2 with marker O.
  Marking player 2 again while player 1 has not staked, and marking player 1 again with
  the same ledger reference, change nothing and emit nothing.
\<close>

theorem C7_active_only_through_playerStaked:
  "(map_of (activeMatches (fst (handle e s))) mid = Some m' \<and> gameActive m' \<and>
    \<not> (\<exists>m. map_of (activeMatches s) mid = Some m \<and> gameActive m)
    \<longrightarrow> (\<exists>sid player. e = PlayerStaked sid mid player) \<and>
        player1Staked m' \<and> player2Staked m' \<and> status m' = STAKED) \<and>
   (map_of (activeMatches s) mid = Some m \<and> player1Staked m \<and> \<not> player2Staked m \<and>
    toLowerCase player = toLowerCase (player2 m)
    \<longrightarrow> handle (PlayerStaked sid mid player) s =
          (s\<lparr>activeMatches := AList.update mid
               (m\<lparr>player2Staked := True, status := STAKED, gameActive := True\<rparr>)
               (activeMatches s)\<rparr>,
           (if player1SocketId m \<in> set (playerSessions s)
            then [Emit (player1SocketId m) (GameStart mid ''X'' True)] else []) @
           (if player2SocketId m \<in> set (playerSessions s)
            then [Emit (player2SocketId m) (GameStart mid ''O'' False)] else []))) \<and>
   (map_of (activeMatches s) mid = Some m \<and> \<not> player1Staked m \<and> player2Staked m
    \<longrightarrow> handle (PlayerStaked sid mid player) s = (s, [])) \<and>
   (map_of (activeMatches s) mid = Some m \<and> player1Staked m \<and> blockchainMatchId m = bcid
    \<longrightarrow> handle (MatchCreated sid mid playerStaked bcid) s = (s, []))"
proof (rule conjI [OF _ conjI [OF _ conjI]]; rule impI)
  assume a: "map_of (activeMatches (fst (handle e s))) mid = Some m' \<and> gameActive m' \<and>
    \<not> (\<exists>m. map_of (activeMatches s) mid = Some m \<and> gameActive m)"
  show "(\<exists>sid player. e = PlayerStaked sid mid player) \<and>
        player1Staked m' \<and> player2Staked m' \<and> status m' = STAKED"
  proof (cases "\<exists>sid mid0 player. e = PlayerStaked sid mid0 player")
    case False
    then have "\<exists>m. map_of (activeMatches s) mid = Some m \<and> gameActive m"
      using a other_handlers_not_activating [of e s mid m'] by blast
    with a show ?thesis by blast
  next
    case True
    then obtain sid mid0 player where e: "e = PlayerStaked sid mid0 player" by blast
    with a have "map_of (activeMatches (fst (onPlayerStaked mid0 player s))) mid = Some m'"
      and "gameActive m'"
      and "\<not> (\<exists>m. map_of (activeMatches s) mid = Some m \<and> gameActive m)"
      by simp_all
    from onPlayerStaked_activating [OF this] e show ?thesis by simp
  qed
next
  assume "map_of (activeMatches s) mid = Some m \<and> player1Staked m \<and> \<not> player2Staked m \<and>
    toLowerCase player = toLowerCase (player2 m)"
  then show "handle (PlayerStaked sid mid player) s =
          (s\<lparr>activeMatches := AList.update mid
               (m\<lparr>player2Staked := True, status := STAKED, gameActive := True\<rparr>)
               (activeMatches s)\<rparr>,
           (if player1SocketId m \<in> set (playerSessions s)
            then [Emit (player1SocketId m) (GameStart mid ''X'' True)] else []) @
           (if player2SocketId m \<in> set (playerSessions s)
            then [Emit (player2SocketId m) (GameStart mid ''O'' False)] else []))"
    by (simp add: onPlayerStaked_def Let_def)
next
  assume a: "map_of (activeMatches s) mid = Some m \<and> \<not> player1Staked m \<and> player2Staked m"
  then have "m\<lparr>player2Staked := True\<rparr> = m" by simp
  with a show "handle (PlayerStaked sid mid player) s = (s, [])"
    by (simp add: onPlayerStaked_def Let_def state_update_triv)
next
  assume a: "map_of (activeMatches s) mid = Some m \<and> player1Staked m \<and> blockchainMatchId m = bcid"
  then have "m\<lparr>blockchainMatchId := bcid\<rparr> = m" and "m\<lparr>blockchainMatchId := bcid, player1Staked := True\<rparr> = m"
    by simp_all
  with a show "handle (MatchCreated sid mid playerStaked bcid) s = (s, [])"
    by (simp add: onMatchCreated_def Let_def state_update_triv)
qed

lemma run_player2First: "run player2First initial = player2FirstState"
  by (simp add: player2First_def run_append run_joined)
     (simp add: eval_defs state_defs player2FirstState_def)

text \<open>
  Claim C7 says that the start signal is sent at the instant the second flag is set, and
  that marking a staked participant again is a no-op.  When player 2 has staked first,
  \<open>matchCreated\<close> sets the second flag and sends nothing, and the match stays inactive;
  and \<open>playerStaked\<close> for player 2 on the started, active match sends both start
  signals again.
\<close>

theorem C7_counterexample:
  "handle (MatchCreated ''s1'' ''m1'' ''0xA'' (Some ''bc1'')) (run player2First initial) =
     (joinedState\<lparr>activeMatches :=
        [(''m1'', createdMatch\<lparr>player1Staked := True, player2Staked := True,
                    blockchainMatchId := Some ''bc1''\<rparr>)]\<rparr>, []) \<and>
   gameActive (createdMatch\<lparr>player1Staked := True, player2Staked := True,
                 blockchainMatchId := Some ''bc1''\<rparr>) = False \<and>
   map_option gameActive (map_of (activeMatches (run started initial)) ''m1'') = Some True \<and>
   snd (handle (PlayerStaked ''s2'' ''m1'' ''0xB'') (run started initial)) =
     [Emit ''s1'' (GameStart ''m1'' ''X'' True), Emit ''s2'' (GameStart ''m1'' ''O'' False)]"
  by (simp add: run_player2First run_started)
     (simp add: eval_defs state_defs player2FirstState_def)

text \<open>
  The theorem of C7 on the match \<open>m1\<close>.
\<close>

theorem C7_witness:
  "handle (PlayerStaked ''s2'' ''m1'' ''0xb'')
     (joinedState\<lparr>activeMatches := [(''m1'', createdMatch\<lparr>player1Staked := True\<rparr>)]\<rparr>) =
     (joinedState\<lparr>activeMatches :=
        [(''m1'', createdMatch\<lparr>player1Staked := True, player2Staked := True, status := STAKED,
                    gameActive := True\<rparr>)]\<rparr>,
      [Emit ''s1'' (GameStart ''m1'' ''X'' True), Emit ''s2'' (GameStart ''m1'' ''O'' False)]) \<and>
   handle (PlayerStaked ''s2'' ''m1'' ''0xB'') player2FirstState = (player2FirstState, []) \<and>
   handle (MatchCreated ''s2'' ''m1'' ''0xA'' None)
     (joinedState\<lparr>activeMatches := [(''m1'', createdMatch\<lparr>player1Staked := True\<rparr>)]\<rparr>) =
     (joinedState\<lparr>activeMatches := [(''m1'', createdMatch\<lparr>player1Staked := True\<rparr>)]\<rparr>, []) \<and>
   status startedMatch = STAKED"
proof -
  let ?s = "joinedState\<lparr>activeMatches := [(''m1'', createdMatch\<lparr>player1Staked := True\<rparr>)]\<rparr>"
  let ?m = "createdMatch\<lparr>player1Staked := True\<rparr>"
  have l: "map_of (activeMatches ?s) ''m1'' = Some ?m" by simp
  have p1: "player1Staked ?m" and p2: "\<not> player2Staked ?m"
    and b: "blockchainMatchId ?m = None"
    by (simp_all add: state_defs)
  have lc: "toLowerCase ''0xb'' = toLowerCase (player2 ?m)"
    by (simp add: state_defs toLowerCase_def lowerChar_def)
  have l2: "map_of (activeMatches player2FirstState) ''m1'' = Some (createdMatch\<lparr>player2Staked := True\<rparr>)"
    by (simp add: player2FirstState_def)
  have q1: "\<not> player1Staked (createdMatch\<lparr>player2Staked := True\<rparr>)"
    and q2: "player2Staked (createdMatch\<lparr>player2Staked := True\<rparr>)"
    by (simp_all add: state_defs)
  have r0: "map_of (activeMatches (fst (handle (PlayerStaked ''s2'' ''m1'' ''0xB'') (run started initial))))
              ''m1'' = Some startedMatch"
    by (simp add: run_started) (simp add: eval_defs state_defs)
  have r1: "gameActive startedMatch" by (simp add: state_defs)
  have r2: "\<not> (\<exists>m. map_of (activeMatches joinedState) ''m1'' = Some m \<and> gameActive m)"
    by (simp add: state_defs)
  have r3: "map_of (activeMatches (fst (handle (PlayerStaked ''s2'' ''m1'' ''0xB'')
               (joinedState\<lparr>activeMatches :=
                   [(''m1'', createdMatch\<lparr>player1Staked := True, blockchainMatchId := Some ''bc1''\<rparr>)]\<rparr>))))
              ''m1'' = Some startedMatch"
    by (simp add: eval_defs state_defs)
  have r4: "\<not> (\<exists>m. map_of (activeMatches
               (joinedState\<lparr>activeMatches :=
                   [(''m1'', createdMatch\<lparr>player1Staked := True, blockchainMatchId := Some ''bc1''\<rparr>)]\<rparr>))
               ''m1'' = Some m \<and> gameActive m)"
    by (simp add: state_defs)
  note T1 = C7_active_only_through_playerStaked
    [where e = "PlayerStaked ''s2'' ''m1'' ''0xB''" and mid = "''m1''" and m' = startedMatch
       and s = "joinedState\<lparr>activeMatches :=
           [(''m1'', createdMatch\<lparr>player1Staked := True, blockchainMatchId := Some ''bc1''\<rparr>)]\<rparr>"]
  have A: "(\<exists>sid player. PlayerStaked ''s2'' ''m1'' ''0xB'' = PlayerStaked sid ''m1'' player) \<and>
        player1Staked startedMatch \<and> player2Staked startedMatch \<and> status startedMatch = STAKED"
    by (rule mp [OF T1 [THEN conjunct1]]) (intro conjI r3 r1 r4)
  note T2 = C7_active_only_through_playerStaked
    [where s = ?s and mid = "''m1''" and m = ?m and player = "''0xb''" and sid = "''s2''"
       and bcid = None and playerStaked = "''0xA''"]
  have B: "handle (PlayerStaked ''s2'' ''m1'' ''0xb'') ?s =
          (?s\<lparr>activeMatches := AList.update ''m1''
               (?m\<lparr>player2Staked := True, status := STAKED, gameActive := True\<rparr>)
               (activeMatches ?s)\<rparr>,
           (if player1SocketId ?m \<in> set (playerSessions ?s)
            then [Emit (player1SocketId ?m) (GameStart ''m1'' ''X'' True)] else []) @
           (if player2SocketId ?m \<in> set (playerSessions ?s)
            then [Emit (player2SocketId ?m) (GameStart ''m1'' ''O'' False)] else []))"
    by (rule mp [OF T2 [THEN conjunct2, THEN conjunct1]]) (intro conjI l p1 p2 lc)
  have C: "handle (MatchCreated ''s2'' ''m1'' ''0xA'' None) ?s = (?s, [])"
    by (rule mp [OF T2 [THEN conjunct2, THEN conjunct2, THEN conjunct2]]) (intro conjI l p1 b)
  note T3 = C7_active_only_through_playerStaked
    [where s = player2FirstState and mid = "''m1''" and player = "''0xB''" and sid = "''s2''"
       and m = "createdMatch\<lparr>player2Staked := True\<rparr>"]
  have D: "handle (PlayerStaked ''s2'' ''m1'' ''0xB'') player2FirstState = (player2FirstState, [])"
    by (rule mp [OF T3 [THEN conjunct2, THEN conjunct2, THEN conjunct1]]) (intro conjI l2 q1 q2)
  show ?thesis using A B C D by (simp add: state_defs)
qed

lemma sweepLoop_preStaked:
  "preStakedPlayers (sweepLoop now ps s) =
     filter (\<lambda>(a, p). a \<notin> fst ` set (filter (\<lambda>(a, p). now - timestamp p > PRE_STAKE_TIMEOUT) ps))
       (preStakedPlayers s)"
proof (induction now ps s rule: sweepLoop.induct)
  case (1 now s)
  then show ?case by simp
next
  case (2 now a p rest s)
  show ?case
  proof (cases "now - timestamp p > PRE_STAKE_TIMEOUT")
    case True
    then show ?thesis
      using 2 by (auto simp: AList.delete_eq intro!: filter_cong)
  next
    case False
    then show ?thesis using 2 by simp
  qed
qed

lemma sweep_preStaked:
  assumes "distinct (map fst (preStakedPlayers s))"
  shows "preStakedPlayers (fst (onSweep now s)) =
           filter (\<lambda>(a, p). \<not> now - timestamp p > PRE_STAKE_TIMEOUT) (preStakedPlayers s)"
proof -
  have "(a \<notin> fst ` set (filter (\<lambda>(a, p). now - timestamp p > PRE_STAKE_TIMEOUT) (preStakedPlayers s)))
        = (\<not> now - timestamp p > PRE_STAKE_TIMEOUT)"
    if "(a, p) \<in> set (preStakedPlayers s)" for a p
  proof
    assume "a \<notin> fst ` set (filter (\<lambda>(a, p). now - timestamp p > PRE_STAKE_TIMEOUT) (preStakedPlayers s))"
    then show "\<not> now - timestamp p > PRE_STAKE_TIMEOUT" using that by force
  next
    assume n: "\<not> now - timestamp p > PRE_STAKE_TIMEOUT"
    show "a \<notin> fst ` set (filter (\<lambda>(a, p). now - timestamp p > PRE_STAKE_TIMEOUT) (preStakedPlayers s))"
    proof
      assume "a \<in> fst ` set (filter (\<lambda>(a, p). now - timestamp p > PRE_STAKE_TIMEOUT) (preStakedPlayers s))"
      then obtain p' where "(a, p') \<in> set (preStakedPlayers s)"
        and e: "now - timestamp p' > PRE_STAKE_TIMEOUT" by auto
      with assms that have "p' = p" by (meson eq_key_imp_eq_value)
      with e n show False by simp
    qed
  qed
  then show ?thesis
    by (auto simp: onSweep_def sweepLoop_preStaked intro!: filter_cong)
qed

subsection \<open>The expiry sweep\<close>

text \<open>
  Claim C9 says that the sweep issues a refund request for each expired pre-stake.  The
  sweep never emits anything.  In a reachable state it keeps exactly the pre-stakes whose
  timestamp is at most five minutes old; when it runs 300001 ms after 0xA declared its
  stake, the pre-stake and the waiting entry are removed and that is all.
\<close>

theorem C9_sweep_removes_expired_sends_nothing:
  "snd (handle (Sweep now) s) = [] \<and>
   preStakedPlayers (fst (handle (Sweep now) (run evs initial))) =
     filter (\<lambda>(a, p). \<not> now - timestamp p > PRE_STAKE_TIMEOUT)
       (preStakedPlayers (run evs initial)) \<and>
   handle (Sweep 301001) (run waiting initial) =
     (\<lparr>waitingPlayers = [], activeMatches = [], playerSessions = [''s1''],
       preStakedPlayers = []\<rparr>, [])"
proof (intro conjI)
  show "snd (handle (Sweep now) s) = []" by (simp add: onSweep_def)
next
  have "wf (run evs initial)" using wf_initial by (rule wf_run)
  then have "distinct (map fst (preStakedPlayers (run evs initial)))" by (simp add: wf_def)
  then show "preStakedPlayers (fst (handle (Sweep now) (run evs initial))) =
     filter (\<lambda>(a, p). \<not> now - timestamp p > PRE_STAKE_TIMEOUT)
       (preStakedPlayers (run evs initial))"
    by (simp add: sweep_preStaked)
next
  show "handle (Sweep 301001) (run waiting initial) =
     (\<lparr>waitingPlayers = [], activeMatches = [], playerSessions = [''s1''],
       preStakedPlayers = []\<rparr>, [])"
    by (simp add: run_waiting) (simp add: eval_defs waitingState_def)
qed

end
